theory Spec2Isabelle
  imports Complex_Main "HOL-Library.Word"
begin

text \<open>
  A model of the game outcome and settlement code of the Solana casino: the payout
  server, the fairness derivation, and the coin flip, dice, crash, roulette and slots
  components. Conventions used throughout:
  \<^item> In the game components JavaScript numbers are idealised as rationals (integers
    where the code only holds integers). In the payout server the two operations on
    doubles that decide the balance check are parameters, so that nothing is said
    about how they round.
  \<^item> What the outside world answers to a call (the Solana connection, the clock,
    \<open>Math.random()\<close>) is an input of the model; \<open>Inl msg\<close> is a thrown error.
  \<^item> Each handler returns, besides its result, the calls it has made, in order.
\<close>

section \<open>Payout server: \<open>POST /api/payout\<close>\<close>

text \<open>
  The server keeps three module-level variables: \<open>houseKeypair\<close> (null when the house
  wallet is not configured), the array \<open>payoutHistory\<close> and the map \<open>pendingPayouts\<close>.
  The amount of a request is the value of a finite double, a rational; lamport amounts
  are integers.
\<close>

record payoutRecord =
  rec_gameId :: string
  rec_playerWallet :: string
  rec_amount :: rat
  rec_signature :: string
  rec_blockhash :: string
  rec_slot :: nat
  rec_timestamp :: nat

record server =
  houseKeypair :: "string option"
  payoutHistory :: "payoutRecord list"
  pendingPayouts :: "string \<rightharpoonup> bool"

text \<open>The JSON body of a request; a field that is absent or null is \<open>None\<close>.\<close>

record payoutBody =
  playerWallet :: "string option"
  amount :: "rat option"
  gameId :: "string option"
  blockhash :: "string option"
  slot :: "nat option"

text \<open>The JSON answer together with its HTTP status.\<close>

record response =
  status :: nat
  success :: bool
  signature :: "string option"
  error :: "string option"
  message :: "string option"
  explorerUrl :: "string option"

text \<open>
  What the Solana connection and the process environment answer while one request is
  handled. \<open>Inl msg\<close> is a thrown \<open>Error\<close> with that message. \<open>sendRawTransaction\<close>
  also stands for signing and serialising the transaction, which throw into the same
  \<open>catch\<close> block. \<open>confirmTransaction = Inr True\<close> means \<open>confirmation.value.err\<close>
  is set.

  The record also holds the behaviour of the platform and of the \<open>web3.js\<close> library
  that the handler relies on and that is not code of this repository:
  \<^item> \<open>floorLamports amount\<close> is \<open>Math.floor(amount * LAMPORTS_PER_SOL)\<close>, the
    product being the rounded product of doubles (for 0.0157 SOL it is 15699999, where
    the exact product is 15700000);
  \<^item> \<open>plusFee lamports\<close> is \<open>lamports + 5000\<close> as a sum of doubles, which is the
    exact sum below \<open>2^53\<close>;
  \<^item> \<open>systemTransfer from to lamports\<close> is \<open>Some msg\<close> when
    \<open>SystemProgram.transfer\<close> throws for these lamports (a negative number, for
    one), which lands in the same \<open>catch\<close> block.
\<close>

record rpc =
  newPublicKey :: "string \<Rightarrow> string + string"
  getBalance :: "string + int"
  getLatestBlockhash :: "string + (string \<times> nat)"
  sendRawTransaction :: "string + string"
  confirmTransaction :: "string + bool"
  dateNow :: nat
  solanaNetwork :: "string option"
  floorLamports :: "rat \<Rightarrow> int"
  plusFee :: "int \<Rightarrow> int"
  systemTransfer :: "string \<Rightarrow> string \<Rightarrow> int \<Rightarrow> string option"

text \<open>Calls made on the connection, in the order they are made.\<close>

datatype event =
    GetBalance string
  | GetLatestBlockhash
  | SendRawTransaction string string int
  | ConfirmTransaction string

definition LAMPORTS_PER_SOL :: rat where
  "LAMPORTS_PER_SOL = 1000000000"

text \<open>JavaScript truthiness of the body fields: \<open>!x\<close>.\<close>

definition falsy_string :: "string option \<Rightarrow> bool" where
  "falsy_string x = (case x of None \<Rightarrow> True | Some s \<Rightarrow> s = [])"

definition falsy_number :: "rat option \<Rightarrow> bool" where
  "falsy_number x = (case x of None \<Rightarrow> True | Some n \<Rightarrow> n = 0)"

definition or_string :: "string option \<Rightarrow> string \<Rightarrow> string" where
  "or_string x d = (case x of None \<Rightarrow> d | Some s \<Rightarrow> if s = [] then d else s)"

definition or_nat :: "nat option \<Rightarrow> nat \<Rightarrow> nat" where
  "or_nat x d = (case x of None \<Rightarrow> d | Some n \<Rightarrow> if n = 0 then d else n)"

definition json_error :: "nat \<Rightarrow> string \<Rightarrow> response" where
  "json_error code msg =
     \<lparr>status = code, success = False, signature = None, error = Some msg,
      message = None, explorerUrl = None\<rparr>"

definition already_processed :: "string \<Rightarrow> response" where
  "already_processed sig =
     \<lparr>status = 200, success = True, signature = Some sig, error = None,
      message = Some ''Payout already processed'', explorerUrl = None\<rparr>"

definition payout_sent :: "rpc \<Rightarrow> string \<Rightarrow> response" where
  "payout_sent r sig =
     \<lparr>status = 200, success = True, signature = Some sig, error = None, message = None,
      explorerUrl = Some (''https://explorer.solana.com/tx/'' @ sig @ ''?cluster=''
                          @ or_string (solanaNetwork r) ''devnet'')\<rparr>"

text \<open>The body of the \<open>try\<close> block: how the transfer attempt ends.\<close>

datatype attempt =
    Thrown string
  | InsufficientBalance
  | Confirmed string string

definition transfer_attempt :: "rpc \<Rightarrow> string \<Rightarrow> string \<Rightarrow> rat \<Rightarrow> attempt \<times> event list" where
  "transfer_attempt r house wallet amt =
     (case newPublicKey r wallet of
        Inl e \<Rightarrow> (Thrown e, [])
      | Inr playerPubkey \<Rightarrow>
          let lamports = floorLamports r amt in
          (case getBalance r of
             Inl e \<Rightarrow> (Thrown e, [GetBalance house])
           | Inr houseBalance \<Rightarrow>
               if houseBalance < plusFee r lamports
               then (InsufficientBalance, [GetBalance house])
               else
                 (case systemTransfer r house playerPubkey lamports of
                    Some e \<Rightarrow> (Thrown e, [GetBalance house])
                  | None \<Rightarrow>
                      (case getLatestBlockhash r of
                         Inl e \<Rightarrow> (Thrown e, [GetBalance house, GetLatestBlockhash])
                       | Inr (recentBlockhash, lastValidBlockHeight) \<Rightarrow>
                           (case sendRawTransaction r of
                              Inl e \<Rightarrow>
                                (Thrown e,
                                 [GetBalance house, GetLatestBlockhash,
                                  SendRawTransaction house playerPubkey lamports])
                            | Inr sig \<Rightarrow>
                                (case confirmTransaction r of
                                   Inl e \<Rightarrow>
                                     (Thrown e,
                                      [GetBalance house, GetLatestBlockhash,
                                       SendRawTransaction house playerPubkey lamports,
                                       ConfirmTransaction sig])
                                 | Inr err \<Rightarrow>
                                     (if err then Thrown ''Transaction failed to confirm''
                                      else Confirmed sig recentBlockhash,
                                      [GetBalance house, GetLatestBlockhash,
                                       SendRawTransaction house playerPubkey lamports,
                                       ConfirmTransaction sig])))))))"

text \<open>
  The handler. It answers, leaves the server variables in a new state and has made the
  listed calls.
\<close>

definition payout :: "server \<Rightarrow> payoutBody \<Rightarrow> rpc \<Rightarrow> response \<times> server \<times> event list" where
  "payout s body r =
     (if falsy_string (playerWallet body) \<or> falsy_number (amount body)
         \<or> falsy_string (gameId body)
      then (json_error 400 ''Missing required fields: playerWallet, amount, gameId'', s, [])
      else
        (case houseKeypair s of
           None \<Rightarrow>
             (json_error 503 ''House wallet not configured. Please set up the server.'', s, [])
         | Some house \<Rightarrow>
             let g = the (gameId body); wallet = the (playerWallet body);
                 amt = the (amount body) in
             if pendingPayouts s g \<noteq> None
             then (json_error 409 ''Payout for this game is already being processed'', s, [])
             else
               (case find (\<lambda>p. rec_gameId p = g) (payoutHistory s) of
                  Some existingPayout \<Rightarrow>
                    (already_processed (rec_signature existingPayout), s, [])
                | None \<Rightarrow>
                    let s1 = s\<lparr>pendingPayouts := (pendingPayouts s)(g \<mapsto> True)\<rparr> in
                    (case transfer_attempt r house wallet amt of
                       (InsufficientBalance, evs) \<Rightarrow>
                         (json_error 503 ''Insufficient house wallet balance'',
                          s1\<lparr>pendingPayouts := (pendingPayouts s1)(g := None)\<rparr>, evs)
                     | (Thrown e, evs) \<Rightarrow>
                         (json_error 500 e,
                          s1\<lparr>pendingPayouts := (pendingPayouts s1)(g := None)\<rparr>, evs)
                     | (Confirmed sig recentBlockhash, evs) \<Rightarrow>
                         let payoutRecord =
                               \<lparr>rec_gameId = g, rec_playerWallet = wallet, rec_amount = amt,
                                rec_signature = sig,
                                rec_blockhash = or_string (blockhash body) recentBlockhash,
                                rec_slot = or_nat (slot body) 0,
                                rec_timestamp = dateNow r\<rparr>;
                             s2 = s1\<lparr>payoutHistory := payoutHistory s1 @ [payoutRecord]\<rparr> in
                         (payout_sent r sig,
                          s2\<lparr>pendingPayouts := (pendingPayouts s2)(g := None)\<rparr>, evs)))))"

text \<open>The transfers submitted to the ledger among a list of calls.\<close>

fun is_send :: "event \<Rightarrow> bool" where
  "is_send (SendRawTransaction _ _ _) = True"
| "is_send _ = False"

definition transfers :: "event list \<Rightarrow> nat" where
  "transfers evs = length (filter is_send evs)"


section \<open>Fairness derivation: \<open>utils/provablyFair\<close>\<close>

text \<open>
  \<open>crypto.subtle.digest("SHA-256", new TextEncoder().encode(seed))\<close> is a primitive of
  the platform, not code of this repository: every definition below takes it as the
  parameter \<open>sha256\<close>, from the seed string to the bytes of the digest. Reading
  \<open>hashArray[0]\<close> from an empty array gives \<open>undefined\<close> in JavaScript, arithmetic on
  it gives \<open>NaN\<close>, and every comparison with \<open>NaN\<close> is false; the model follows that.
\<close>

type_synonym digest = "8 word list"

text \<open>
  What the browser answers while a game round runs: the connection's latest blockhash
  and slot (\<open>Inl\<close> is a thrown error), \<open>Date.now()\<close> and \<open>Math.random()\<close>.
\<close>

record browser =
  latestBlockhash :: "string + string"
  currentSlot :: "string + nat"
  clock :: nat
  random :: rat

datatype client_event =
    FetchBlockhash
  | EscrowSubmitted string
  | EscrowConfirmed string
  | FetchSlot
  | Digest string
  | PayoutRequest payoutBody

datatype coin = heads | tails

record fairResult =
  fr_result :: coin
  fr_won :: bool
  fr_blockhash :: string
  fr_slot :: nat
  fr_seed :: string

text \<open>Template literals print a non-negative integer in decimal.\<close>

definition digit_char :: "nat \<Rightarrow> char" where
  "digit_char d = ''0123456789'' ! d"

function showNat :: "nat \<Rightarrow> string" where
  "showNat n = (if n < 10 then [digit_char n] else showNat (n div 10) @ [digit_char (n mod 10)])"
  by pat_completeness auto
termination
  by (relation "measure id") auto

declare showNat.simps [simp del]

definition combinedSeed :: "string \<Rightarrow> nat \<Rightarrow> string option \<Rightarrow> string" where
  "combinedSeed bh sl userSeed =
     (if falsy_string userSeed then bh @ ''-'' @ showNat sl
      else bh @ ''-'' @ showNat sl @ ''-'' @ the userSeed)"

definition randomPercent :: "8 word \<Rightarrow> rat" where
  "randomPercent randomValue = (of_nat (unat randomValue) / 255) * 100"

definition won_from :: "digest \<Rightarrow> rat \<Rightarrow> bool" where
  "won_from hashArray winChance =
     (case hashArray of [] \<Rightarrow> False | randomValue # _ \<Rightarrow> randomPercent randomValue < winChance)"

definition generateProvablyFairResult ::
  "(string \<Rightarrow> digest) \<Rightarrow> browser \<Rightarrow> rat \<Rightarrow> string option
     \<Rightarrow> (string + fairResult) \<times> client_event list" where
  "generateProvablyFairResult sha256 env winChance userSeed =
     (case latestBlockhash env of
        Inl e \<Rightarrow> (Inl e, [FetchBlockhash])
      | Inr bh \<Rightarrow>
          (case currentSlot env of
             Inl e \<Rightarrow> (Inl e, [FetchBlockhash, FetchSlot])
           | Inr sl \<Rightarrow>
               let seed = combinedSeed bh sl userSeed;
                   hashArray = sha256 seed;
                   won = won_from hashArray winChance
               in (Inr \<lparr>fr_result = (if won then heads else tails), fr_won = won,
                        fr_blockhash = bh, fr_slot = sl, fr_seed = seed\<rparr>,
                   [FetchBlockhash, FetchSlot, Digest seed])))"

definition verifyResult :: "(string \<Rightarrow> digest) \<Rightarrow> string \<Rightarrow> coin \<Rightarrow> bool" where
  "verifyResult sha256 seed expectedResult =
     (let hashArray = sha256 seed;
          res = (case hashArray of [] \<Rightarrow> tails
                 | randomValue # _ \<Rightarrow> if unat randomValue < 128 then heads else tails)
      in res = expectedResult)"

section \<open>Placing the bet: step 1 of every game round\<close>

text \<open>
  The stake is sent to the house wallet and the round waits for its confirmation.
  \<open>bet_confirm = Inr True\<close> means \<open>confirmation.value.err\<close> is set.
\<close>

record betAnswers =
  bet_blockhash :: "string + string"
  bet_send :: "string + string"
  bet_confirm :: "string + bool"

definition placeBet :: "betAnswers \<Rightarrow> (string + string) \<times> client_event list" where
  "placeBet b =
     (case bet_blockhash b of
        Inl e \<Rightarrow> (Inl e, [FetchBlockhash])
      | Inr bh \<Rightarrow>
          (case bet_send b of
             Inl e \<Rightarrow> (Inl e, [FetchBlockhash])
           | Inr betSignature \<Rightarrow>
               (case bet_confirm b of
                  Inl e \<Rightarrow> (Inl e, [FetchBlockhash, EscrowSubmitted betSignature])
                | Inr err \<Rightarrow>
                    if err
                    then (Inl ''Bet transaction failed'',
                          [FetchBlockhash, EscrowSubmitted betSignature])
                    else (Inr betSignature,
                          [FetchBlockhash, EscrowSubmitted betSignature,
                           EscrowConfirmed betSignature]))))"


text \<open>A bet field as a handler reads it: blank, not a number, or a number.\<close>

datatype amountField = Blank | NotANumber | Amount rat

text \<open>
  What \<open>processPayout\<close> of \<open>utils/payoutService\<close> returns to a game component; it
  catches every error and never throws. \<open>processPayout_api\<close> is its branch that calls
  the payout server, given the server's answer.
\<close>

record payoutResponse =
  pr_success :: bool
  pr_signature :: "string option"
  pr_error :: "string option"


text \<open>\<open>validateBalance\<close> of \<open>utils/validation\<close>, with its default fee.\<close>

definition validateBalance :: "rat \<Rightarrow> rat \<Rightarrow> bool" where
  "validateBalance amt bal = (if amt \<le> 0 then False else \<not> (amt + 5 / 1000000 > bal))"

text \<open>\<open>String.prototype.includes\<close>.\<close>

fun str_includes :: "string \<Rightarrow> string \<Rightarrow> bool" where
  "str_includes [] sub = (sub = [])"
| "str_includes (c # cs) sub = (take (length sub) (c # cs) = sub \<or> str_includes cs sub)"

definition game_error :: "string \<Rightarrow> string" where
  "game_error msg =
     (if str_includes msg ''User rejected'' then ''Transaction cancelled by user''
      else if str_includes msg ''insufficient'' then ''Insufficient SOL balance''
      else ''Failed to process bet. Please try again.'')"

text \<open>
  How a round ends: the click was ignored, the \<open>catch\<close> block set an error, or the
  round was played.
\<close>

datatype 'a round = Ignored | Errored string | Played 'a

section \<open>Coin flip: \<open>CoinFlipGame\<close> and \<open>GAME_CONFIG\<close>\<close>

definition cfg_minBet :: rat where "cfg_minBet = 1 / 1000"
definition cfg_maxBet :: rat where "cfg_maxBet = 10"
definition cfg_winMultiplier :: rat where "cfg_winMultiplier = 2"
definition cfg_houseEdge :: rat where "cfg_houseEdge = 0"

record coinUI =
  c_betAmount :: "rat option"
  c_selectedSide :: "coin option"
  c_balance :: rat
  c_publicKey :: "string option"

text \<open>
  What a round leaves behind: the coin shown, the \<open>won\<close> and \<open>payout\<close> fields of
  the history entry, the seed used, and the state \<open>payoutTxSignature\<close>. The last
  argument of \<open>flipCoin\<close> is what \<open>processPayout\<close> returns when it is called.
\<close>

record coinRound =
  cr_coinResult :: coin
  cr_won :: bool
  cr_payout :: rat
  cr_seed :: string
  cr_payoutTxSignature :: "string option"

definition coin_validateBet :: "coinUI \<Rightarrow> bool" where
  "coin_validateBet ui =
     (case c_betAmount ui of
        None \<Rightarrow> False
      | Some amt \<Rightarrow>
          if \<not> amt > 0 then False
          else if amt < cfg_minBet then False
          else if amt > cfg_maxBet then False
          else if \<not> validateBalance amt (c_balance ui) then False
          else c_selectedSide ui \<noteq> None)"

definition flipCoin ::
  "(string \<Rightarrow> digest) \<Rightarrow> coinUI \<Rightarrow> betAnswers \<Rightarrow> browser \<Rightarrow> nat \<Rightarrow> payoutResponse
     \<Rightarrow> coinRound round \<times> client_event list" where
  "flipCoin sha256 ui b env payNow payoutResult =
     (if \<not> coin_validateBet ui \<or> c_publicKey ui = None then (Ignored, [])
      else
        let amt = the (c_betAmount ui); pk = the (c_publicKey ui);
            selectedSide = the (c_selectedSide ui) in
        (case placeBet b of
           (Inl e, evs) \<Rightarrow> (Errored (game_error e), evs)
         | (Inr betSignature, evs) \<Rightarrow>
             (case generateProvablyFairResult sha256 env 50 (Some pk) of
                (Inl e, evs') \<Rightarrow> (Errored (game_error e), evs @ evs')
              | (Inr fairResult, evs') \<Rightarrow>
                  let coinResult =
                        (if fr_won fairResult then selectedSide
                         else if selectedSide = heads then tails else heads);
                      didWin = fr_won fairResult;
                      payoutAmount = amt * cfg_winMultiplier;
                      req = \<lparr>playerWallet = Some pk, amount = Some payoutAmount,
                             gameId = Some (''game_'' @ showNat payNow),
                             blockhash = Some (fr_blockhash fairResult),
                             slot = Some (fr_slot fairResult)\<rparr>
                  in (Played \<lparr>cr_coinResult = coinResult, cr_won = didWin,
                              cr_payout = (if didWin then amt * cfg_winMultiplier else 0),
                              cr_seed = fr_seed fairResult,
                              cr_payoutTxSignature =
                                (if didWin \<and> pr_success payoutResult
                                    \<and> \<not> falsy_string (pr_signature payoutResult)
                                 then pr_signature payoutResult else None)\<rparr>,
                      evs @ evs' @ (if didWin then [PayoutRequest req] else [])))))"


section \<open>Dice: \<open>DiceGame\<close>\<close>

definition HOUSE_EDGE :: rat where "HOUSE_EDGE = 1 / 100"
definition MIN_BET :: rat where "MIN_BET = 1 / 1000"
definition MAX_BET :: rat where "MAX_BET = 10"

record diceUI =
  d_betAmount :: "rat option"
  d_target :: int
  d_rollOver :: bool
  d_balance :: rat
  d_publicKey :: "string option"

record diceRound =
  dr_result :: "int option"
  dr_won :: bool
  dr_payout :: rat
  dr_multiplier :: rat
  dr_seed :: string

definition dice_winChance :: "bool \<Rightarrow> int \<Rightarrow> int" where
  "dice_winChance rollOver target = (if rollOver then 100 - target else target)"

definition dice_multiplier :: "bool \<Rightarrow> int \<Rightarrow> rat" where
  "dice_multiplier rollOver target =
     ((1 - HOUSE_EDGE) * 100) / of_int (dice_winChance rollOver target)"

definition dice_validateBet :: "diceUI \<Rightarrow> bool" where
  "dice_validateBet ui =
     (case d_betAmount ui of
        None \<Rightarrow> False
      | Some amt \<Rightarrow>
          if \<not> amt > 0 then False
          else if amt < MIN_BET then False
          else if amt > MAX_BET then False
          else validateBalance amt (d_balance ui))"

text \<open>\<open>Math.floor((hashArray[0] / 255) * 99) + 1\<close>; \<open>None\<close> is \<open>NaN\<close>.\<close>

definition roll_of_byte :: "8 word \<Rightarrow> int" where
  "roll_of_byte b = \<lfloor>(of_nat (unat b) / 255) * (99 :: rat)\<rfloor> + 1"

definition rollResult_from :: "digest \<Rightarrow> int option" where
  "rollResult_from hashArray = (case hashArray of [] \<Rightarrow> None | b # _ \<Rightarrow> Some (roll_of_byte b))"

definition dice_didWin :: "bool \<Rightarrow> int \<Rightarrow> int option \<Rightarrow> bool" where
  "dice_didWin rollOver target rollResult =
     (case rollResult of
        None \<Rightarrow> False
      | Some n \<Rightarrow> if rollOver then n > target else n < target)"

text \<open>
  The last argument is what \<open>processPayout\<close> returns when it is called; the handler
  awaits it and does not look at it.
\<close>

definition rollDice ::
  "(string \<Rightarrow> digest) \<Rightarrow> diceUI \<Rightarrow> betAnswers \<Rightarrow> browser \<Rightarrow> nat \<Rightarrow> payoutResponse
     \<Rightarrow> diceRound round \<times> client_event list" where
  "rollDice sha256 ui b env payNow payoutResult =
     (if \<not> dice_validateBet ui \<or> d_publicKey ui = None then (Ignored, [])
      else
        let amt = the (d_betAmount ui); pk = the (d_publicKey ui);
            target = d_target ui; rollOver = d_rollOver ui;
            winChance = dice_winChance rollOver target;
            multiplier = dice_multiplier rollOver target in
        (case placeBet b of
           (Inl e, evs) \<Rightarrow> (Errored (game_error e), evs)
         | (Inr betSignature, evs) \<Rightarrow>
             (case generateProvablyFairResult sha256 env (of_int winChance) (Some pk) of
                (Inl e, evs') \<Rightarrow> (Errored (game_error e), evs @ evs')
              | (Inr fairResult, evs') \<Rightarrow>
                  let seed = fr_blockhash fairResult @ ''-'' @ showNat (fr_slot fairResult)
                               @ ''-'' @ pk @ ''-dice'';
                      hashArray = sha256 seed;
                      rollResult = rollResult_from hashArray;
                      didWin = dice_didWin rollOver target rollResult;
                      payoutAmount = amt * multiplier;
                      req = \<lparr>playerWallet = Some pk, amount = Some payoutAmount,
                             gameId = Some (''dice_'' @ showNat payNow),
                             blockhash = Some (fr_blockhash fairResult),
                             slot = Some (fr_slot fairResult)\<rparr>
                  in (Played \<lparr>dr_result = rollResult, dr_won = didWin,
                              dr_payout = (if didWin then amt * multiplier else 0),
                              dr_multiplier = multiplier, dr_seed = seed\<rparr>,
                      evs @ evs' @ [Digest seed]
                        @ (if didWin then [PayoutRequest req] else [])))))"



section \<open>Crash: \<open>generateCrashPoint\<close>\<close>

text \<open>
  \<open>DataView.getUint32(0)\<close> reads the first four bytes big-endian and throws a
  \<open>RangeError\<close> (here \<open>None\<close>) when the buffer is shorter.
\<close>

definition getUint32 :: "digest \<Rightarrow> nat option" where
  "getUint32 bs =
     (case bs of
        b0 # b1 # b2 # b3 # _ \<Rightarrow>
          Some (unat b0 * 2 ^ 24 + unat b1 * 2 ^ 16 + unat b2 * 2 ^ 8 + unat b3)
      | _ \<Rightarrow> None)"

text \<open>Lines 104 to 106: the crash point of a draw \<open>v\<close>.\<close>

definition crashPoint :: "rat \<Rightarrow> rat" where
  "crashPoint v =
     (if v < HOUSE_EDGE then 1
      else let point = of_int \<lfloor>(99 / (1 - v)) * 100\<rfloor> / 100
           in max 1 (min point 1000))"

definition generateCrashPoint ::
  "(string \<Rightarrow> digest) \<Rightarrow> browser \<Rightarrow> rat \<times> client_event list" where
  "generateCrashPoint sha256 env =
     (case latestBlockhash env of
        Inl e \<Rightarrow> (3 / 2 + random env * 2, [FetchBlockhash])
      | Inr bh \<Rightarrow>
          let seed = bh @ ''-crash-'' @ showNat (clock env);
              hashArray = sha256 seed
          in (case getUint32 hashArray of
                None \<Rightarrow> (3 / 2 + random env * 2, [FetchBlockhash, Digest seed])
              | Some n \<Rightarrow> (crashPoint (of_nat n / 2 ^ 32), [FetchBlockhash, Digest seed])))"




section \<open>Roulette: \<open>RouletteGame\<close>\<close>

datatype betType = Number | Red | Black | Even | Odd | Low | High

record bet =
  bet_type :: betType
  bet_value :: "int option"
  bet_amount :: rat

datatype color = red | black | green

definition RED_NUMBERS :: "int list" where
  "RED_NUMBERS = [1, 3, 5, 7, 9, 12, 14, 16, 18, 19, 21, 23, 25, 27, 30, 32, 34, 36]"

definition getNumberColor :: "int \<Rightarrow> color" where
  "getNumberColor num =
     (if num = 0 then green else if num \<in> set RED_NUMBERS then red else black)"

text \<open>\<open>Math.floor(Math.random() * 37)\<close>.\<close>

definition winningNumber_of :: "rat \<Rightarrow> int" where
  "winningNumber_of rnd = \<lfloor>rnd * 37\<rfloor>"

text \<open>One pass of the \<open>forEach\<close> body over a bet: the new value of \<open>totalWin\<close>.\<close>

definition settle_bet :: "int \<Rightarrow> bet \<Rightarrow> rat \<Rightarrow> rat" where
  "settle_bet winningNumber b totalWin =
     (let winningColor = getNumberColor winningNumber in
      case bet_type b of
        Number \<Rightarrow>
          if bet_value b = Some winningNumber then totalWin + bet_amount b * 36 else totalWin
      | Red \<Rightarrow> if winningColor = red then totalWin + bet_amount b * 2 else totalWin
      | Black \<Rightarrow> if winningColor = black then totalWin + bet_amount b * 2 else totalWin
      | Even \<Rightarrow>
          if winningNumber \<noteq> 0 \<and> winningNumber mod 2 = 0
          then totalWin + bet_amount b * 2 else totalWin
      | Odd \<Rightarrow> if winningNumber mod 2 = 1 then totalWin + bet_amount b * 2 else totalWin
      | Low \<Rightarrow>
          if winningNumber \<ge> 1 \<and> winningNumber \<le> 18
          then totalWin + bet_amount b * 2 else totalWin
      | High \<Rightarrow>
          if winningNumber \<ge> 19 \<and> winningNumber \<le> 36
          then totalWin + bet_amount b * 2 else totalWin)"

definition roulette_totalWin :: "int \<Rightarrow> bet list \<Rightarrow> rat" where
  "roulette_totalWin winningNumber bets = fold (settle_bet winningNumber) bets 0"

definition roulette_spin :: "rat \<Rightarrow> bet list \<Rightarrow> int \<times> rat" where
  "roulette_spin rnd bets =
     (let winningNumber = winningNumber_of rnd
      in (winningNumber, roulette_totalWin winningNumber bets))"

text \<open>
  The fixed table of the specification, for comparison with the code: which numbers a
  bet covers and what a covering bet returns per unit stake.
\<close>

definition spec_covers :: "bet \<Rightarrow> int \<Rightarrow> bool" where
  "spec_covers b n =
     (case bet_type b of
        Number \<Rightarrow> bet_value b = Some n
      | Red \<Rightarrow> n \<in> {1, 3, 5, 7, 9, 12, 14, 16, 18, 19, 21, 23, 25, 27, 30, 32, 34, 36}
      | Black \<Rightarrow> n \<in> {2, 4, 6, 8, 10, 11, 13, 15, 17, 20, 22, 24, 26, 28, 29, 31, 33, 35}
      | Even \<Rightarrow> n \<in> {1..36} \<and> even n
      | Odd \<Rightarrow> n \<in> {1..36} \<and> odd n
      | Low \<Rightarrow> n \<in> {1..18}
      | High \<Rightarrow> n \<in> {19..36})"

definition spec_table :: "betType \<Rightarrow> rat" where
  "spec_table t = (case t of Number \<Rightarrow> 36 | _ \<Rightarrow> 2)"

definition spec_return :: "int \<Rightarrow> bet \<Rightarrow> rat" where
  "spec_return n b = (if spec_covers b n then bet_amount b * spec_table (bet_type b) else 0)"

section \<open>Slots: \<open>SlotsGame\<close>\<close>

text \<open>The seven symbols, in the order of \<open>SYMBOLS\<close>; \<open>Seven\<close> is the jackpot symbol.\<close>

datatype symbol = Seven | Diamond | Clover | Bell | Star | Cherry | Lemon

definition WEIGHTS :: "(symbol \<times> rat) list" where
  "WEIGHTS = [(Seven, 1), (Diamond, 3), (Clover, 8), (Bell, 15), (Star, 25), (Cherry, 30),
              (Lemon, 40)]"

datatype three_pay = JACKPOT | Times rat

fun PAYOUTS_three :: "symbol \<Rightarrow> three_pay" where
  "PAYOUTS_three Seven = JACKPOT"
| "PAYOUTS_three Diamond = Times 500"
| "PAYOUTS_three Clover = Times 100"
| "PAYOUTS_three Bell = Times 50"
| "PAYOUTS_three Star = Times 25"
| "PAYOUTS_three Cherry = Times 10"
| "PAYOUTS_three Lemon = Times 5"

fun PAYOUTS_two :: "symbol \<Rightarrow> rat" where
  "PAYOUTS_two Seven = 50"
| "PAYOUTS_two Diamond = 25"
| "PAYOUTS_two Clover = 10"
| "PAYOUTS_two Bell = 5"
| "PAYOUTS_two Star = 3"
| "PAYOUTS_two Cherry = 2"
| "PAYOUTS_two Lemon = 2"

definition SLOTS_MIN_BET :: rat where "SLOTS_MIN_BET = 1 / 1000"
definition SLOTS_MAX_BET :: rat where "SLOTS_MAX_BET = 5"
definition INITIAL_JACKPOT :: rat where "INITIAL_JACKPOT = 5000"
definition JACKPOT_CONTRIBUTION :: rat where "JACKPOT_CONTRIBUTION = 2 / 100"

text \<open>The loop of \<open>getRandomSymbol\<close> over the entries of \<open>WEIGHTS\<close>.\<close>

fun pick_symbol :: "rat \<Rightarrow> (symbol \<times> rat) list \<Rightarrow> symbol" where
  "pick_symbol rnd [] = Lemon"
| "pick_symbol rnd ((smb, weight) # rest) =
     (if rnd - weight \<le> 0 then smb else pick_symbol (rnd - weight) rest)"

definition getRandomSymbol :: "rat \<Rightarrow> symbol" where
  "getRandomSymbol u =
     (let totalWeight = fold (\<lambda>b a. a + b) (map snd WEIGHTS) 0
      in pick_symbol (u * totalWeight) WEIGHTS)"

text \<open>
  The \<open>type\<close> string of a win. Only the jackpot's string contains \<open>JACKPOT\<close>, which is
  all the code asks of it.
\<close>

datatype winType = JackpotWin | ThreeOf symbol rat | TwoOf symbol rat | NoWin

text \<open>
  \<open>calculateWin\<close> reads the variable \<open>jackpot\<close> of the component; here it is the first
  argument.
\<close>

definition calculateWin :: "rat \<Rightarrow> symbol \<times> symbol \<times> symbol \<Rightarrow> rat \<Rightarrow> rat \<times> winType" where
  "calculateWin jackpot symbols betAmt =
     (case symbols of
        (s1, s2, s3) \<Rightarrow>
          if s1 = s2 \<and> s2 = s3 then
            (case PAYOUTS_three s1 of
               JACKPOT \<Rightarrow> (jackpot, JackpotWin)
             | Times pay \<Rightarrow> (betAmt * pay, ThreeOf s1 pay))
          else if s1 = s2 then (betAmt * PAYOUTS_two s1, TwoOf s1 (PAYOUTS_two s1))
          else if s2 = s3 then (betAmt * PAYOUTS_two s2, TwoOf s2 (PAYOUTS_two s2))
          else if s1 = s3 then (betAmt * PAYOUTS_two s1, TwoOf s1 (PAYOUTS_two s1))
          else (0, NoWin))"

record slotsStats =
  wins :: nat
  losses :: nat
  totalWagered :: rat
  totalWon :: rat
  jackpotsWon :: nat

text \<open>The React state of the component that a spin reads or writes.\<close>

record slots =
  st_jackpot :: rat
  st_stats :: slotsStats
  st_balance :: rat
  st_publicKey :: "string option"

text \<open>
  A spin runs in two parts: the click handler up to the start of the reel animation,
  and the timer callback after the last reel has stopped. Between them the component
  is rendered again, but the running handler keeps the variables of the render in which
  it was created: its \<open>calculateWin\<close> reads the \<open>jackpot\<close> of that render. State is
  written through updater functions (\<open>setJackpot((prev) => ...)\<close>), which act on the
  current state. \<open>running\<close> holds what the handler carries into the callback.
\<close>

record running =
  run_jackpot :: rat
  run_amount :: rat
  run_finalReels :: "symbol \<times> symbol \<times> symbol"
  run_publicKey :: string

text \<open>The first call of the bet step that throws, if any; the slots handler does not
  look at \<open>confirmation.value.err\<close>.\<close>

definition bet_thrown :: "betAnswers \<Rightarrow> string option" where
  "bet_thrown b =
     (case bet_blockhash b of
        Inl e \<Rightarrow> Some e
      | Inr bh \<Rightarrow>
          (case bet_send b of
             Inl e \<Rightarrow> Some e
           | Inr betSignature \<Rightarrow>
               (case bet_confirm b of Inl e \<Rightarrow> Some e | Inr err \<Rightarrow> None)))"

definition slots_spin_start ::
  "slots \<Rightarrow> amountField \<Rightarrow> betAnswers \<Rightarrow> rat \<times> rat \<times> rat \<Rightarrow> running round \<times> slots" where
  "slots_spin_start s betAmount b draws =
     (case betAmount of
        Blank \<Rightarrow> (Errored ''Please enter a bet amount'', s)
      | NotANumber \<Rightarrow> (Errored ''Minimum bet is 0.001 SOL'', s)
      | Amount amt \<Rightarrow>
          if amt < SLOTS_MIN_BET then (Errored ''Minimum bet is 0.001 SOL'', s)
          else if amt > SLOTS_MAX_BET then (Errored ''Maximum bet is 5 SOL'', s)
          else if amt > st_balance s then (Errored ''Insufficient balance'', s)
          else
            (case st_publicKey s of
               None \<Rightarrow> (Ignored, s)
             | Some pk \<Rightarrow>
                 (case bet_thrown b of
                    Some e \<Rightarrow>
                      (Errored (if str_includes e ''User rejected''
                                then ''Transaction cancelled'' else ''Failed to place bet''), s)
                  | None \<Rightarrow>
                      (case draws of
                         (u1, u2, u3) \<Rightarrow>
                           (Played \<lparr>run_jackpot = st_jackpot s, run_amount = amt,
                                    run_finalReels =
                                      (getRandomSymbol u1, getRandomSymbol u2,
                                       getRandomSymbol u3),
                                    run_publicKey = pk\<rparr>,
                            s\<lparr>st_jackpot := st_jackpot s + amt * JACKPOT_CONTRIBUTION\<rparr>)))))"

definition slots_spin_finish :: "slots \<Rightarrow> running \<Rightarrow> nat \<Rightarrow> payoutBody option \<times> slots" where
  "slots_spin_finish s run now =
     (case calculateWin (run_jackpot run) (run_finalReels run) (run_amount run) of
        (win_amount, win_type) \<Rightarrow>
          if win_amount > 0 then
            let s1 = (if win_type = JackpotWin
                      then s\<lparr>st_jackpot := INITIAL_JACKPOT,
                             st_stats := (st_stats s)\<lparr>jackpotsWon := jackpotsWon (st_stats s) + 1\<rparr>\<rparr>
                      else s);
                req = \<lparr>playerWallet = Some (run_publicKey run), amount = Some win_amount,
                       gameId = Some (''slots_'' @ showNat now), blockhash = Some [],
                       slot = Some 0\<rparr>
            in (Some req,
                s1\<lparr>st_stats := (st_stats s1)
                     \<lparr>wins := wins (st_stats s1) + 1,
                      totalWagered := totalWagered (st_stats s1) + run_amount run,
                      totalWon := totalWon (st_stats s1) + win_amount\<rparr>\<rparr>)
          else
            (None,
             s\<lparr>st_stats := (st_stats s)
                  \<lparr>losses := losses (st_stats s) + 1,
                   totalWagered := totalWagered (st_stats s) + run_amount run\<rparr>\<rparr>))"


section \<open>Worked inputs\<close>

text \<open>
  In \<open>ex_rpc\<close> the operations on doubles are the exact ones, which is what doubles
  give at the amounts used below (2 SOL, balances near 2000005000 lamports).
\<close>

text \<open>
  A configured server with no payouts yet, a payout request of 2 SOL for the wager
  \<open>game_2000\<close> (the request of the coin flip round below), and a connection whose house balance is the argument and on which every
  call succeeds.
\<close>

definition ex_server :: server where
  "ex_server = \<lparr>houseKeypair = Some ''HOUSE'', payoutHistory = [], pendingPayouts = Map.empty\<rparr>"

definition ex_body :: payoutBody where
  "ex_body = \<lparr>playerWallet = Some ''PLAYER'', amount = Some 2, gameId = Some ''game_2000'',
               blockhash = Some ''B1'', slot = Some 7\<rparr>"

definition ex_rpc :: "int \<Rightarrow> rpc" where
  "ex_rpc bal = \<lparr>newPublicKey = Inr, getBalance = Inr bal,
                 getLatestBlockhash = Inr (''B2'', 100), sendRawTransaction = Inr ''SIG'',
                 confirmTransaction = Inr False, dateNow = 1000, solanaNetwork = None,
                 floorLamports = (\<lambda>a. \<lfloor>a * LAMPORTS_PER_SOL\<rfloor>),
                 plusFee = (\<lambda>l. l + 5000),
                 systemTransfer =
                   (\<lambda>f t l. if l < 0 then Some ''lamports out of range'' else None)\<rparr>"

definition ex_paid :: server where
  "ex_paid =
     \<lparr>houseKeypair = Some ''HOUSE'',
      payoutHistory =
        [\<lparr>rec_gameId = ''game_2000'', rec_playerWallet = ''PLAYER'', rec_amount = 2,
          rec_signature = ''SIG'', rec_blockhash = ''B1'', rec_slot = 7,
          rec_timestamp = 1000\<rparr>],
      pendingPayouts = Map.empty\<rparr>"

definition ex_events :: "event list" where
  "ex_events = [GetBalance ''HOUSE'', GetLatestBlockhash,
                SendRawTransaction ''HOUSE'' ''PLAYER'' 2000000000, ConfirmTransaction ''SIG'']"


text \<open>
  A stand-in for the digest, whose first byte is the length of the seed; a browser
  that answers blockhash \<open>B1\<close> and slot 7; a bet whose transfer is confirmed under the
  given signature; a dice and a coin player with a stake of 1 SOL.
\<close>

definition ex_sha256 :: "string \<Rightarrow> digest" where
  "ex_sha256 seed = of_nat (length seed) # replicate 31 0"

definition ex_env :: browser where
  "ex_env = \<lparr>latestBlockhash = Inr ''B1'', currentSlot = Inr 7, clock = 1000, random = 0\<rparr>"

definition ex_bet :: "string \<Rightarrow> betAnswers" where
  "ex_bet betSignature =
     \<lparr>bet_blockhash = Inr ''B0'', bet_send = Inr betSignature, bet_confirm = Inr False\<rparr>"

definition ex_dice :: "bool \<Rightarrow> diceUI" where
  "ex_dice over = \<lparr>d_betAmount = Some 1, d_target = 50, d_rollOver = over, d_balance = 10,
                    d_publicKey = Some ''PLAYER''\<rparr>"

definition ex_coin :: coinUI where
  "ex_coin = \<lparr>c_betAmount = Some 1, c_selectedSide = Some tails, c_balance = 10,
               c_publicKey = Some ''PLAYER''\<rparr>"



text \<open>The answers of \<open>processPayout\<close> to a payout that failed and to one that was sent.\<close>

definition ex_pay_failed :: payoutResponse where
  "ex_pay_failed =
     \<lparr>pr_success = False, pr_signature = None, pr_error = Some ''Payout API returned 503''\<rparr>"

definition ex_pay_sent :: payoutResponse where
  "ex_pay_sent = \<lparr>pr_success = True, pr_signature = Some ''SIG'', pr_error = None\<rparr>"

text \<open>Four roulette bets; a slots player facing a jackpot of 5000.\<close>

definition ex_bets :: "bet list" where
  "ex_bets = [\<lparr>bet_type = Number, bet_value = Some 18, bet_amount = 1\<rparr>,
              \<lparr>bet_type = Red, bet_value = None, bet_amount = 1 / 2\<rparr>,
              \<lparr>bet_type = Odd, bet_value = None, bet_amount = 1\<rparr>,
              \<lparr>bet_type = Number, bet_value = Some 0, bet_amount = 1\<rparr>]"

definition ex_slots :: slots where
  "ex_slots =
     \<lparr>st_jackpot = 5000,
      st_stats = \<lparr>wins = 0, losses = 0, totalWagered = 0, totalWon = 0, jackpotsWon = 0\<rparr>,
      st_balance = 10, st_publicKey = Some ''PLAYER''\<rparr>"

definition ex_running :: running where
  "ex_running = \<lparr>run_jackpot = 5000, run_amount = 1, run_finalReels = (Seven, Seven, Seven),
                  run_publicKey = ''PLAYER''\<rparr>"

section \<open>Properties of the payout server\<close>


lemma find_snoc_fresh:
  "find P xs = None \<Longrightarrow> P x \<Longrightarrow> find P (xs @ [x]) = Some x"
  by (induction xs) (auto split: if_splits)

lemma transfer_attempt_confirmed_transfers:
  "transfer_attempt r house w a = (Confirmed sig bh, evs) \<Longrightarrow> transfers evs = 1"
  by (auto simp: transfer_attempt_def Let_def transfers_def
           split: sum.splits option.splits if_splits prod.splits)

text \<open>A request for a wager that is in the history is answered from the history.\<close>

lemma payout_cached:
  assumes "houseKeypair s = Some house" "pendingPayouts s g = None"
    and "find (\<lambda>p. rec_gameId p = g) (payoutHistory s) = Some p"
    and "gameId body = Some g" "\<not> falsy_string (playerWallet body)"
        "\<not> falsy_number (amount body)"
    and "g \<noteq> []"
  shows "payout s body r = (already_processed (rec_signature p), s, [])"
  using assms by (simp add: payout_def falsy_string_def Let_def)

text \<open>
  A request that succeeds for a wager not yet in the history has made one transfer and
  leaves the wager in the history, not pending.
\<close>

lemma payout_fresh_success:
  assumes unpaid: "find (\<lambda>p. rec_gameId p = g) (payoutHistory s) = None"
    and first: "gameId body = Some g" "payout s body r = (resp, s', evs)" "success resp"
  shows "\<exists>sig house p. signature resp = Some sig \<and> transfers evs = 1 \<and> g \<noteq> []
           \<and> houseKeypair s' = Some house \<and> pendingPayouts s' g = None
           \<and> find (\<lambda>p. rec_gameId p = g) (payoutHistory s') = Some p
           \<and> rec_signature p = sig"
proof -
  from first have wf: "\<not> falsy_string (playerWallet body)" "\<not> falsy_number (amount body)"
      "g \<noteq> []"
    by (auto simp: payout_def json_error_def falsy_string_def split: if_splits)
  from first wf obtain house where house: "houseKeypair s = Some house"
    by (cases "houseKeypair s") (auto simp: payout_def json_error_def falsy_string_def)
  from first wf house have idle: "pendingPayouts s g = None"
    by (auto simp: payout_def json_error_def falsy_string_def Let_def split: if_splits)
  obtain att evs' where att:
    "transfer_attempt r house (the (playerWallet body)) (the (amount body)) = (att, evs')"
    by (cases "transfer_attempt r house (the (playerWallet body)) (the (amount body))")
  from first wf house idle unpaid att obtain sig bh where c: "att = Confirmed sig bh"
    by (cases att) (auto simp: payout_def json_error_def falsy_string_def Let_def)
  from first wf house idle unpaid att c have
    resp: "resp = payout_sent r sig" and evs: "evs = evs'"
    and s': "s' = s\<lparr>pendingPayouts := ((pendingPayouts s)(g \<mapsto> True))(g := None),
                  payoutHistory := payoutHistory s @
        [\<lparr>rec_gameId = g, rec_playerWallet = the (playerWallet body),
          rec_amount = the (amount body), rec_signature = sig,
          rec_blockhash = or_string (blockhash body) bh,
          rec_slot = or_nat (slot body) 0, rec_timestamp = dateNow r\<rparr>]\<rparr>"
    by (auto simp: payout_def falsy_string_def Let_def)
  have "transfers evs = 1"
    using att c evs transfer_attempt_confirmed_transfers by blast
  moreover have "signature resp = Some sig" using resp by (simp add: payout_sent_def)
  moreover have "houseKeypair s' = Some house" using s' house by simp
  moreover have "pendingPayouts s' g = None" using s' by simp
  moreover have "find (\<lambda>p. rec_gameId p = g) (payoutHistory s') =
     Some \<lparr>rec_gameId = g, rec_playerWallet = the (playerWallet body),
          rec_amount = the (amount body), rec_signature = sig,
          rec_blockhash = or_string (blockhash body) bh,
          rec_slot = or_nat (slot body) 0, rec_timestamp = dateNow r\<rparr>"
    using s' unpaid by (simp add: find_snoc_fresh)
  ultimately show ?thesis using wf by auto
qed

lemma ex_payout_run:
  "payout ex_server ex_body (ex_rpc 3000000000)
     = (payout_sent (ex_rpc 3000000000) ''SIG'', ex_paid, ex_events)"
  by (simp add: payout_def ex_server_def ex_body_def ex_rpc_def ex_paid_def ex_events_def
      falsy_string_def falsy_number_def transfer_attempt_def Let_def LAMPORTS_PER_SOL_def
      or_string_def or_nat_def payout_sent_def)

text \<open>
  C1. Idempotency on the wager id. Let a payout request for wager \<open>g\<close>, not in the
  history before, succeed with transfer signature \<open>sig\<close>. It has submitted exactly one
  transfer. Any two later requests for \<open>g\<close> that carry a player wallet and an amount,
  whatever the connection answers, return one and the same result: success with the
  recorded signature \<open>sig\<close>; they make no call on the connection, hence no transfer,
  and leave the server state as it was. (The first answer carries the explorer link
  where the repeated ones carry the note \<open>Payout already processed\<close>; status, success
  flag and signature agree.)
\<close>

theorem settle_twice_one_transfer:
  assumes unpaid: "find (\<lambda>p. rec_gameId p = g) (payoutHistory s) = None"
    and first: "gameId body = Some g" "payout s body r1 = (resp1, s1, evs1)" "success resp1"
    and rep2: "gameId body2 = Some g" "\<not> falsy_string (playerWallet body2)"
              "\<not> falsy_number (amount body2)"
    and rep3: "gameId body3 = Some g" "\<not> falsy_string (playerWallet body3)"
              "\<not> falsy_number (amount body3)"
  shows "\<exists>sig. signature resp1 = Some sig \<and> status resp1 = 200 \<and> transfers evs1 = 1
           \<and> payout s1 body2 r2 = (already_processed sig, s1, [])
           \<and> payout s1 body3 r3 = (already_processed sig, s1, [])
           \<and> transfers (evs1 @ [] @ []) = 1
           \<and> status (already_processed sig) = 200 \<and> success (already_processed sig)
           \<and> signature (already_processed sig) = Some sig"
proof -
  from payout_fresh_success [OF unpaid first] obtain sig house p where
    f: "signature resp1 = Some sig" "transfers evs1 = 1" "g \<noteq> []"
       "houseKeypair s1 = Some house" "pendingPayouts s1 g = None"
       "find (\<lambda>p. rec_gameId p = g) (payoutHistory s1) = Some p" "rec_signature p = sig"
    by blast
  have "payout s1 body2 r2 = (already_processed sig, s1, [])"
    using payout_cached [OF f(4) f(5) f(6) rep2 f(3)] f(7) by simp
  moreover have "payout s1 body3 r3 = (already_processed sig, s1, [])"
    using payout_cached [OF f(4) f(5) f(6) rep3 f(3)] f(7) by simp
  moreover have "status resp1 = 200"
    using first(2,3)
    by (auto simp: payout_def json_error_def already_processed_def payout_sent_def Let_def
        split: if_splits option.splits prod.splits attempt.splits)
  ultimately show ?thesis using f by (auto simp: already_processed_def)
qed

theorem settle_twice_one_transfer_witness:
  "payout ex_server ex_body (ex_rpc 3000000000)
     = (payout_sent (ex_rpc 3000000000) ''SIG'', ex_paid, ex_events)
   \<and> transfers ex_events = 1
   \<and> payout ex_paid ex_body (ex_rpc 0) = (already_processed ''SIG'', ex_paid, [])
   \<and> payout ex_paid (ex_body\<lparr>amount := Some 5\<rparr>) (ex_rpc 7)
       = (already_processed ''SIG'', ex_paid, [])"
proof -
  have unpaid: "find (\<lambda>p. rec_gameId p = ''game_2000'') (payoutHistory ex_server) = None"
    by (simp add: ex_server_def)
  have g: "gameId ex_body = Some ''game_2000''" by (simp add: ex_body_def)
  have ok: "success (payout_sent (ex_rpc 3000000000) ''SIG'')" by (simp add: payout_sent_def)
  have rep2: "gameId ex_body = Some ''game_2000''" "\<not> falsy_string (playerWallet ex_body)"
    "\<not> falsy_number (amount ex_body)"
    by (simp_all add: ex_body_def falsy_string_def falsy_number_def)
  have rep3: "gameId (ex_body\<lparr>amount := Some 5\<rparr>) = Some ''game_2000''"
    "\<not> falsy_string (playerWallet (ex_body\<lparr>amount := Some 5\<rparr>))"
    "\<not> falsy_number (amount (ex_body\<lparr>amount := Some 5\<rparr>))"
    by (simp_all add: ex_body_def falsy_string_def falsy_number_def)
  from settle_twice_one_transfer [OF unpaid g ex_payout_run ok rep2 rep3,
      where ?r2.0 = "ex_rpc 0" and ?r3.0 = "ex_rpc 7"]
  show ?thesis using ex_payout_run by (auto simp: payout_sent_def)
qed

text \<open>
  Whatever the request and the answers of the connection: a transfer that the handler
  submits was preceded by a balance read that is not below its lamports plus 5000, and
  \<open>SystemProgram.transfer\<close> has accepted its lamports.
\<close>

lemma transfer_attempt_send_covered:
  assumes "SendRawTransaction h p l \<in> set (snd (transfer_attempt r house w a))"
  shows "\<exists>b. getBalance r = Inr b \<and> \<not> b < plusFee r l \<and> l = floorLamports r a
           \<and> systemTransfer r h p l = None"
  using assms
  by (auto simp: transfer_attempt_def Let_def
      split: sum.splits option.splits if_splits prod.splits)

lemma payout_send_covered:
  assumes "SendRawTransaction h p l \<in> set (snd (snd (payout s body r)))"
  shows "\<exists>b. getBalance r = Inr b \<and> \<not> b < plusFee r l \<and> systemTransfer r h p l = None"
proof -
  have ne: "snd (snd (payout s body r)) \<noteq> []" using assms by auto
  have wf: "\<not> (falsy_string (playerWallet body) \<or> falsy_number (amount body)
         \<or> falsy_string (gameId body))"
  proof
    assume "falsy_string (playerWallet body) \<or> falsy_number (amount body)
         \<or> falsy_string (gameId body)"
    then have "snd (snd (payout s body r)) = []" by (simp add: payout_def)
    with ne show False by simp
  qed
  obtain house where hk: "houseKeypair s = Some house"
  proof (cases "houseKeypair s")
    case None
    with wf have "snd (snd (payout s body r)) = []" by (simp add: payout_def)
    with ne show ?thesis by simp
  next
    case (Some house)
    then show ?thesis by (rule that)
  qed
  have idle: "pendingPayouts s (the (gameId body)) = None"
  proof (rule ccontr)
    assume "pendingPayouts s (the (gameId body)) \<noteq> None"
    with wf hk have "snd (snd (payout s body r)) = []" by (simp add: payout_def Let_def)
    with ne show False by simp
  qed
  have unpaid: "find (\<lambda>p. rec_gameId p = the (gameId body)) (payoutHistory s) = None"
  proof (rule ccontr)
    assume "find (\<lambda>p. rec_gameId p = the (gameId body)) (payoutHistory s) \<noteq> None"
    with wf hk idle have "snd (snd (payout s body r)) = []"
      by (auto simp: payout_def Let_def)
    with ne show False by simp
  qed
  obtain att evs where att: "transfer_attempt r house (the (playerWallet body))
      (the (amount body)) = (att, evs)"
    by (cases "transfer_attempt r house (the (playerWallet body)) (the (amount body))")
  have "snd (snd (payout s body r)) = evs"
    using hk wf idle unpaid att by (cases att) (simp_all add: payout_def Let_def)
  with assms att transfer_attempt_send_covered [of h p l r house "the (playerWallet body)"
      "the (amount body)"]
  show ?thesis by auto
qed

section \<open>Properties of the fairness derivation\<close>

lemma showNat_digit: "n < 10 \<Longrightarrow> showNat n = [digit_char n]"
  by (simp add: showNat.simps)

lemmas ex_defs = ex_sha256_def ex_env_def ex_bet_def ex_dice_def ex_coin_def
  ex_pay_failed_def ex_pay_sent_def

lemma randomPercent_below_50: "randomPercent b < 50 \<longleftrightarrow> unat b < 128"
proof -
  have "randomPercent b < 50 \<longleftrightarrow> (of_nat (unat b) :: rat) * 100 < 50 * 255"
    by (simp add: randomPercent_def field_simps)
  also have "\<dots> \<longleftrightarrow> (of_nat (unat b * 100) :: rat) < of_nat 12750"
    by simp
  also have "\<dots> \<longleftrightarrow> unat b * 100 < 12750"
    by (simp only: of_nat_less_iff)
  also have "\<dots> \<longleftrightarrow> unat b < 128" by arith
  finally show ?thesis .
qed

lemma ex_generate:
  "generateProvablyFairResult ex_sha256 ex_env 50 (Some ''PLAYER'') =
     (Inr \<lparr>fr_result = heads, fr_won = True, fr_blockhash = ''B1'', fr_slot = 7,
           fr_seed = ''B1-7-PLAYER''\<rparr>,
      [FetchBlockhash, FetchSlot, Digest ''B1-7-PLAYER''])"
  by (simp add: ex_defs generateProvablyFairResult_def combinedSeed_def falsy_string_def
      won_from_def randomPercent_def Let_def showNat_digit digit_char_def)

lemma ex_generate_tails:
  "generateProvablyFairResult (\<lambda>seed. 200 # replicate 31 0) ex_env 50 (Some ''PLAYER'') =
     (Inr \<lparr>fr_result = tails, fr_won = False, fr_blockhash = ''B1'', fr_slot = 7,
           fr_seed = ''B1-7-PLAYER''\<rparr>,
      [FetchBlockhash, FetchSlot, Digest ''B1-7-PLAYER''])"
  by (simp add: ex_defs generateProvablyFairResult_def combinedSeed_def falsy_string_def
      won_from_def randomPercent_def Let_def showNat_digit digit_char_def)

text \<open>
  C9. The derivation is a function of its seed material. Two invocations, in whatever
  browser state (clock, random source), that read the same blockhash and slot and get
  the same user seed and win chance return the same record: the same seed string, hence
  the same digest of it, and the same win or loss, which is the one computed from the
  digest of \<open>combinedSeed\<close>.
\<close>

theorem derivation_deterministic:
  assumes "latestBlockhash env1 = Inr bh" "currentSlot env1 = Inr sl"
      and "latestBlockhash env2 = Inr bh" "currentSlot env2 = Inr sl"
  shows "generateProvablyFairResult sha256 env1 winChance userSeed
           = generateProvablyFairResult sha256 env2 winChance userSeed
         \<and> fst (generateProvablyFairResult sha256 env1 winChance userSeed)
           = Inr \<lparr>fr_result = (if won_from (sha256 (combinedSeed bh sl userSeed)) winChance
                                then heads else tails),
                  fr_won = won_from (sha256 (combinedSeed bh sl userSeed)) winChance,
                  fr_blockhash = bh, fr_slot = sl, fr_seed = combinedSeed bh sl userSeed\<rparr>"
  using assms by (simp add: generateProvablyFairResult_def Let_def)

theorem derivation_deterministic_witness:
  "generateProvablyFairResult ex_sha256 ex_env 50 (Some ''PLAYER'')
     = generateProvablyFairResult ex_sha256 (ex_env\<lparr>clock := 5, random := 1 / 2\<rparr>) 50
         (Some ''PLAYER'')
   \<and> fst (generateProvablyFairResult ex_sha256 (ex_env\<lparr>clock := 5, random := 1 / 2\<rparr>) 50
         (Some ''PLAYER''))
     = Inr \<lparr>fr_result = heads, fr_won = True, fr_blockhash = ''B1'', fr_slot = 7,
            fr_seed = ''B1-7-PLAYER''\<rparr>"
proof -
  have e1: "latestBlockhash ex_env = Inr ''B1''" "currentSlot ex_env = Inr 7"
    by (simp_all add: ex_env_def)
  have e2: "latestBlockhash (ex_env\<lparr>clock := 5, random := 1 / 2\<rparr>) = Inr ''B1''"
    "currentSlot (ex_env\<lparr>clock := 5, random := 1 / 2\<rparr>) = Inr 7"
    by (simp_all add: ex_env_def)
  from derivation_deterministic [OF e1 e2, of ex_sha256 50 "Some ''PLAYER''"]
  have eq: "generateProvablyFairResult ex_sha256 ex_env 50 (Some ''PLAYER'')
     = generateProvablyFairResult ex_sha256 (ex_env\<lparr>clock := 5, random := 1 / 2\<rparr>) 50
         (Some ''PLAYER'')"
    by (rule conjunct1)
  show ?thesis by (simp add: eq [symmetric] ex_generate)
qed

text \<open>
  C10. At a win chance of 50 the result that \<open>generateProvablyFairResult\<close> reports
  (heads on a win, tails on a loss) is accepted by \<open>verifyResult\<close> on the seed it
  returns: a first digest byte gives a percentage below 50 exactly when it is below 128.
\<close>

theorem generate_accepted_by_verify:
  assumes "generateProvablyFairResult sha256 env 50 userSeed = (Inr fr, evs)"
  shows "verifyResult sha256 (fr_seed fr) (fr_result fr)"
  using assms
  by (auto simp: generateProvablyFairResult_def verifyResult_def won_from_def Let_def
      randomPercent_below_50 split: sum.splits list.splits)

theorem generate_accepted_by_verify_witness:
  "verifyResult ex_sha256 ''B1-7-PLAYER'' heads
   \<and> verifyResult (\<lambda>seed. 200 # replicate 31 0) ''B1-7-PLAYER'' tails"
  using generate_accepted_by_verify [OF ex_generate]
    generate_accepted_by_verify [OF ex_generate_tails]
  by simp

section \<open>Properties of the bet and of the coin flip and dice rounds\<close>

lemma placeBet_cases:
  "placeBet b = (Inr betSignature, evs) \<Longrightarrow>
     evs = [FetchBlockhash, EscrowSubmitted betSignature, EscrowConfirmed betSignature]
     \<and> bet_send b = Inr betSignature \<and> bet_confirm b = Inr False"
  "placeBet b = (Inl e, evs) \<Longrightarrow>
     evs = [FetchBlockhash] \<or> (\<exists>sg. evs = [FetchBlockhash, EscrowSubmitted sg])"
  by (auto simp: placeBet_def split: sum.splits if_splits)

lemma generate_cases:
  "generateProvablyFairResult sha256 env wc us = (Inr fr, evs) \<Longrightarrow>
     \<exists>bh sl. latestBlockhash env = Inr bh \<and> currentSlot env = Inr sl
       \<and> fr_blockhash fr = bh \<and> fr_slot fr = sl \<and> fr_seed fr = combinedSeed bh sl us
       \<and> fr_won fr = won_from (sha256 (combinedSeed bh sl us)) wc
       \<and> evs = [FetchBlockhash, FetchSlot, Digest (combinedSeed bh sl us)]"
  "generateProvablyFairResult sha256 env wc us = (Inl e, evs) \<Longrightarrow>
     evs = [FetchBlockhash] \<or> evs = [FetchBlockhash, FetchSlot]"
  by (auto simp: generateProvablyFairResult_def Let_def split: sum.splits)


lemma rollDice_played:
  assumes "rollDice sha256 ui b env t pr = (Played r, evs)"
  shows "\<exists>amt pk sg bh sl. d_betAmount ui = Some amt \<and> d_publicKey ui = Some pk
     \<and> bet_send b = Inr sg \<and> bet_confirm b = Inr False
     \<and> latestBlockhash env = Inr bh \<and> currentSlot env = Inr sl
     \<and> dr_seed r = bh @ ''-'' @ showNat sl @ ''-'' @ pk @ ''-dice''
     \<and> dr_result r = rollResult_from (sha256 (dr_seed r))
     \<and> dr_won r = dice_didWin (d_rollOver ui) (d_target ui) (dr_result r)
     \<and> dr_multiplier r = dice_multiplier (d_rollOver ui) (d_target ui)
     \<and> dr_payout r = (if dr_won r then amt * dr_multiplier r else 0)
     \<and> (\<exists>rest. evs = [FetchBlockhash, EscrowSubmitted sg, EscrowConfirmed sg,
            FetchBlockhash, FetchSlot, Digest (combinedSeed bh sl (Some pk)),
            Digest (dr_seed r)] @ rest)"
proof -
  from assms have v: "dice_validateBet ui" "d_publicKey ui \<noteq> None"
    by (auto simp: rollDice_def split: if_splits)
  then obtain amt pk where a: "d_betAmount ui = Some amt" "d_publicKey ui = Some pk"
    by (auto simp: dice_validateBet_def split: option.splits)
  obtain pr pevs where pb: "placeBet b = (pr, pevs)" by (cases "placeBet b")
  from assms v pb obtain sg where sg: "pr = Inr sg"
    by (cases pr) (auto simp: rollDice_def Let_def)
  note p = placeBet_cases(1) [OF pb [unfolded sg]]
  obtain gr gevs where g: "generateProvablyFairResult sha256 env
        (of_int (dice_winChance (d_rollOver ui) (d_target ui))) (Some pk) = (gr, gevs)"
    by (cases "generateProvablyFairResult sha256 env
        (of_int (dice_winChance (d_rollOver ui) (d_target ui))) (Some pk)")
  from assms v a pb sg g obtain fr where fr: "gr = Inr fr"
    by (cases gr) (auto simp: rollDice_def Let_def)
  from generate_cases(1) [OF g [unfolded fr]] obtain bh sl where
    e: "latestBlockhash env = Inr bh" "currentSlot env = Inr sl" "fr_blockhash fr = bh"
       "fr_slot fr = sl"
       "gevs = [FetchBlockhash, FetchSlot, Digest (combinedSeed bh sl (Some pk))]"
    by blast
  from assms v a pb sg g fr e p show ?thesis
    by (auto simp: rollDice_def Let_def)
qed


lemma flipCoin_played:
  assumes "flipCoin sha256 ui b env t pr = (Played r, evs)"
  shows "\<exists>amt pk sg bh sl. c_betAmount ui = Some amt \<and> c_publicKey ui = Some pk
     \<and> bet_send b = Inr sg \<and> bet_confirm b = Inr False
     \<and> latestBlockhash env = Inr bh \<and> currentSlot env = Inr sl
     \<and> cr_seed r = combinedSeed bh sl (Some pk)
     \<and> cr_won r = won_from (sha256 (cr_seed r)) 50
     \<and> cr_payout r = (if cr_won r then amt * cfg_winMultiplier else 0)
     \<and> (\<exists>rest. evs = [FetchBlockhash, EscrowSubmitted sg, EscrowConfirmed sg,
            FetchBlockhash, FetchSlot, Digest (cr_seed r)] @ rest)"
proof -
  from assms have v: "coin_validateBet ui" "c_publicKey ui \<noteq> None"
    by (auto simp: flipCoin_def split: if_splits)
  then obtain amt pk where a: "c_betAmount ui = Some amt" "c_publicKey ui = Some pk"
    by (auto simp: coin_validateBet_def split: option.splits)
  obtain pr pevs where pb: "placeBet b = (pr, pevs)" by (cases "placeBet b")
  from assms v pb obtain sg where sg: "pr = Inr sg"
    by (cases pr) (auto simp: flipCoin_def Let_def)
  note p = placeBet_cases(1) [OF pb [unfolded sg]]
  obtain gr gevs where g: "generateProvablyFairResult sha256 env 50 (Some pk) = (gr, gevs)"
    by (cases "generateProvablyFairResult sha256 env 50 (Some pk)")
  from assms v a pb sg g obtain fr where fr: "gr = Inr fr"
    by (cases gr) (auto simp: flipCoin_def Let_def)
  from generate_cases(1) [OF g [unfolded fr]] obtain bh sl where
    e: "latestBlockhash env = Inr bh" "currentSlot env = Inr sl" "fr_blockhash fr = bh"
       "fr_slot fr = sl" "fr_seed fr = combinedSeed bh sl (Some pk)"
       "fr_won fr = won_from (sha256 (combinedSeed bh sl (Some pk))) 50"
       "gevs = [FetchBlockhash, FetchSlot, Digest (combinedSeed bh sl (Some pk))]"
    by blast
  from assms v a pb sg g fr e p show ?thesis
    by (auto simp: flipCoin_def Let_def)
qed

lemmas dice_defs = rollDice_def dice_validateBet_def validateBalance_def MIN_BET_def MAX_BET_def
  placeBet_def generateProvablyFairResult_def combinedSeed_def falsy_string_def
  won_from_def randomPercent_def rollResult_from_def roll_of_byte_def dice_didWin_def
  dice_winChance_def dice_multiplier_def HOUSE_EDGE_def Let_def showNat_digit digit_char_def

lemmas coin_defs = flipCoin_def coin_validateBet_def validateBalance_def cfg_minBet_def
  cfg_maxBet_def cfg_winMultiplier_def
  placeBet_def generateProvablyFairResult_def combinedSeed_def falsy_string_def
  won_from_def randomPercent_def Let_def showNat_digit digit_char_def


lemma ex_rollDice_under:
  "rollDice ex_sha256 (ex_dice False) (ex_bet ''SIG1'') ex_env 2000 ex_pay_failed =
    (Played \<lparr>dr_result = Some 7, dr_won = True, dr_payout = 99 / 50, dr_multiplier = 99 / 50,
       dr_seed = ''B1-7-PLAYER-dice''\<rparr>,
     [FetchBlockhash, EscrowSubmitted ''SIG1'', EscrowConfirmed ''SIG1'', FetchBlockhash,
      FetchSlot, Digest ''B1-7-PLAYER'', Digest ''B1-7-PLAYER-dice'',
      PayoutRequest \<lparr>playerWallet = Some ''PLAYER'', amount = Some (99 / 50),
       gameId = Some ''dice_2000'', blockhash = Some ''B1'', slot = Some 7\<rparr>])"
  by (simp add: ex_defs dice_defs floor_eq_iff) code_simp

lemma ex_flipCoin:
  "flipCoin ex_sha256 ex_coin (ex_bet ''SIG1'') ex_env 2000 ex_pay_failed =
    (Played \<lparr>cr_coinResult = tails, cr_won = True, cr_payout = 2, cr_seed = ''B1-7-PLAYER'',
       cr_payoutTxSignature = None\<rparr>,
     [FetchBlockhash, EscrowSubmitted ''SIG1'', EscrowConfirmed ''SIG1'', FetchBlockhash,
      FetchSlot, Digest ''B1-7-PLAYER'',
      PayoutRequest \<lparr>playerWallet = Some ''PLAYER'', amount = Some 2,
       gameId = Some ''game_2000'', blockhash = Some ''B1'', slot = Some 7\<rparr>])"
  by (simp add: ex_defs coin_defs) code_simp















text \<open>
  C3, as the code has it. A coin flip is won exactly when the percentage drawn from the
  first digest byte is below the win chance of 50, and returns the stake times
  \<open>(1 - houseEdge) / (50 / 100)\<close>, that is 2, on a win and 0 on a loss. A dice round
  with a target on the slider (2 to 98) returns the stake times
  \<open>(1 - HOUSE_EDGE) / (winChance / 100)\<close> on a win and 0 on a loss; in roll-under mode
  it is won exactly when the roll is below \<open>winChance\<close>; in roll-over mode it is won
  exactly when the roll is above the target, which is \<open>100 - winChance\<close>.
\<close>

theorem wager_win_rule:
  assumes coin: "flipCoin sha256 cui cb cenv ct cpr = (Played cr, cevs)"
      and dice: "rollDice sha256 dui db denv dt dpr = (Played dr, devs)"
      and range: "2 \<le> d_target dui" "d_target dui \<le> 98"
  shows "(cr_won cr \<longleftrightarrow>
            (\<exists>x bs. sha256 (cr_seed cr) = x # bs \<and> randomPercent x < 50))
       \<and> cr_payout cr = the (c_betAmount cui) *
            (if cr_won cr then (1 - cfg_houseEdge) / (50 / 100) else 0)
       \<and> (dr_won dr \<longleftrightarrow>
            (\<exists>x bs. sha256 (dr_seed dr) = x # bs \<and>
               (if d_rollOver dui
                then roll_of_byte x > 100 - dice_winChance (d_rollOver dui) (d_target dui)
                else roll_of_byte x < dice_winChance (d_rollOver dui) (d_target dui))))
       \<and> dr_payout dr = the (d_betAmount dui) *
            (if dr_won dr
             then (1 - HOUSE_EDGE) / (of_int (dice_winChance (d_rollOver dui) (d_target dui)) / 100)
             else 0)"
proof -
  from flipCoin_played [OF coin] obtain camt where
    c: "c_betAmount cui = Some camt" "cr_won cr = won_from (sha256 (cr_seed cr)) 50"
       "cr_payout cr = (if cr_won cr then camt * cfg_winMultiplier else 0)"
    by blast
  from rollDice_played [OF dice] obtain damt where
    d: "d_betAmount dui = Some damt" "dr_result dr = rollResult_from (sha256 (dr_seed dr))"
       "dr_won dr = dice_didWin (d_rollOver dui) (d_target dui) (dr_result dr)"
       "dr_multiplier dr = dice_multiplier (d_rollOver dui) (d_target dui)"
       "dr_payout dr = (if dr_won dr then damt * dr_multiplier dr else 0)"
    by blast
  have 1: "cr_won cr \<longleftrightarrow> (\<exists>x bs. sha256 (cr_seed cr) = x # bs \<and> randomPercent x < 50)"
    using c(2) by (auto simp: won_from_def split: list.splits)
  have 2: "cr_payout cr = the (c_betAmount cui) *
            (if cr_won cr then (1 - cfg_houseEdge) / (50 / 100) else 0)"
    using c by (simp add: cfg_winMultiplier_def cfg_houseEdge_def)
  have 3: "dr_won dr \<longleftrightarrow>
            (\<exists>x bs. sha256 (dr_seed dr) = x # bs \<and>
               (if d_rollOver dui
                then roll_of_byte x > 100 - dice_winChance (d_rollOver dui) (d_target dui)
                else roll_of_byte x < dice_winChance (d_rollOver dui) (d_target dui)))"
    using d(2,3)
    by (auto simp: rollResult_from_def dice_didWin_def dice_winChance_def split: list.splits)
  have 4: "dr_payout dr = the (d_betAmount dui) *
            (if dr_won dr
             then (1 - HOUSE_EDGE) / (of_int (dice_winChance (d_rollOver dui) (d_target dui)) / 100)
             else 0)"
    using d by (simp add: dice_multiplier_def)
  from 1 2 3 4 show ?thesis by blast
qed

theorem wager_win_rule_witness:
  "(\<exists>x bs. ex_sha256 ''B1-7-PLAYER'' = x # bs \<and> randomPercent x < 50)
   \<and> (2::rat) = 1 * ((1 - cfg_houseEdge) / (50 / 100))
   \<and> (\<exists>x bs. ex_sha256 ''B1-7-PLAYER-dice'' = x # bs \<and> roll_of_byte x < 50)
   \<and> (99 / 50 :: rat) = 1 * ((1 - HOUSE_EDGE) / (of_int 50 / 100))"
proof -
  have r: "(2::int) \<le> d_target (ex_dice False)" "d_target (ex_dice False) \<le> 98"
    by (simp_all add: ex_dice_def)
  from wager_win_rule [OF ex_flipCoin ex_rollDice_under r]
  show ?thesis by (simp add: ex_dice_def ex_coin_def dice_winChance_def)
qed

text \<open>
  C3 as stated fails in roll-over mode: with target 50 the win chance is 50; the roll 30
  is below it and loses, the roll 78 is not below it and wins.
\<close>

theorem roll_over_win_counterexample:
  "dice_winChance True 50 = 50
   \<and> rollResult_from (75 # replicate 31 0) = Some 30 \<and> (30::int) < 50
   \<and> dice_didWin True 50 (rollResult_from (75 # replicate 31 0)) = False
   \<and> rollResult_from (200 # replicate 31 0) = Some 78 \<and> \<not> (78::int) < 50
   \<and> dice_didWin True 50 (rollResult_from (200 # replicate 31 0)) = True"
  by (simp add: dice_winChance_def rollResult_from_def roll_of_byte_def dice_didWin_def
      floor_eq_iff)

section \<open>The wager after a payout that failed for want of balance\<close>






section \<open>Properties of the crash point\<close>

lemma crashPoint_bounds: "1 \<le> crashPoint v \<and> crashPoint v \<le> 1000"
  by (simp add: crashPoint_def Let_def)

text \<open>The draw that \<open>generateCrashPoint\<close> feeds to \<open>crashPoint\<close> lies in \<open>[0, 1)\<close>.\<close>

lemma getUint32_range:
  assumes "getUint32 bs = Some n"
  shows "n < 2 ^ 32"
proof -
  have b: "unat x \<le> 255" for x :: "8 word"
    using unsigned_less [of x, where ?'a = nat] by simp
  from assms obtain b0 b1 b2 b3 r where bs: "bs = b0 # b1 # b2 # b3 # r"
    by (auto simp: getUint32_def split: list.splits)
  have n: "n = unat b0 * 16777216 + unat b1 * 65536 + unat b2 * 256 + unat b3"
    using assms by (simp add: getUint32_def bs)
  show ?thesis
    using b [of b0] b [of b1] b [of b2] b [of b3] by (simp add: n)
qed

lemma generateCrashPoint_draw:
  assumes "latestBlockhash env = Inr bh"
    and "getUint32 (sha256 (bh @ ''-crash-'' @ showNat (clock env))) = Some n"
  shows "fst (generateCrashPoint sha256 env) = crashPoint (of_nat n / 2 ^ 32)
       \<and> (0::rat) \<le> of_nat n / 2 ^ 32 \<and> (of_nat n / 2 ^ 32 :: rat) < 1"
proof -
  have "n < 2 ^ 32" using assms(2) by (rule getUint32_range)
  then have "(of_nat n :: rat) < of_nat (2 ^ 32)" by (simp only: of_nat_less_iff)
  then have "(of_nat n / 2 ^ 32 :: rat) < 1" by simp
  then show ?thesis using assms by (simp add: generateCrashPoint_def Let_def)
qed

text \<open>
  C4. For a draw \<open>v\<close> in \<open>[0, 1)\<close>: below the house edge the crash point is 1; otherwise
  it is \<open>floor(99 / (1 - v) * 100) / 100\<close> clamped into \<open>[1, 1000]\<close>.
\<close>

theorem crashPoint_rule:
  assumes "0 \<le> v" "v < 1"
  shows "(v < HOUSE_EDGE \<longrightarrow> crashPoint v = 1)
       \<and> (\<not> v < HOUSE_EDGE \<longrightarrow>
            crashPoint v = max 1 (min (of_int \<lfloor>(99 / (1 - v)) * 100\<rfloor> / 100) 1000))
       \<and> 1 \<le> crashPoint v \<and> crashPoint v \<le> 1000"
  using crashPoint_bounds [of v] by (simp add: crashPoint_def Let_def)

theorem crashPoint_rule_witness:
  "crashPoint 0 = 1 \<and> crashPoint (1 / 2) = 198 \<and> crashPoint (999 / 1000) = 1000"
proof -
  have h0: "(0::rat) \<le> 0" "(0::rat) < 1" by simp_all
  have h1: "(0::rat) \<le> 1 / 2" "(1 / 2 :: rat) < 1" by simp_all
  have h2: "(0::rat) \<le> 999 / 1000" "(999 / 1000 :: rat) < 1" by simp_all
  from crashPoint_rule [OF h0] crashPoint_rule [OF h1] crashPoint_rule [OF h2]
  show ?thesis by (simp add: HOUSE_EDGE_def)
qed

lemma point_mono:
  assumes "u1 \<le> u2" "u2 < (1::rat)"
  shows "(of_int \<lfloor>(99 / (1 - u1)) * 100\<rfloor> / 100 :: rat)
           \<le> of_int \<lfloor>(99 / (1 - u2)) * 100\<rfloor> / 100"
proof -
  have "99 / (1 - u1) \<le> 99 / (1 - u2)"
    using assms by (intro divide_left_mono) (auto intro: mult_pos_pos)
  then have "\<lfloor>(99 / (1 - u1)) * 100\<rfloor> \<le> \<lfloor>(99 / (1 - u2)) * 100\<rfloor>"
    by (intro floor_mono) simp
  then show ?thesis by (simp add: divide_right_mono)
qed

text \<open>
  With the constant 99 in the numerator, a draw at or above the house edge gives a
  crash point of at least 100.
\<close>

lemma crashPoint_at_least_100:
  assumes "HOUSE_EDGE \<le> v" "v < 1"
  shows "100 \<le> crashPoint v"
proof -
  have pos: "0 < 1 - v" and small: "1 - v \<le> 99 / 100"
    using assms by (simp_all add: HOUSE_EDGE_def)
  have "100 * (1 - v) \<le> 99" using small by simp
  then have "100 \<le> 99 / (1 - v)" using pos by (simp add: pos_le_divide_eq)
  then have "10000 \<le> (99 / (1 - v)) * 100" by simp
  then have "(10000::int) \<le> \<lfloor>(99 / (1 - v)) * 100\<rfloor>" by (simp add: le_floor_iff)
  then have "(of_int 10000 :: rat) \<le> of_int \<lfloor>(99 / (1 - v)) * 100\<rfloor>"
    by (simp only: of_int_le_iff)
  then have "(100::rat) \<le> of_int \<lfloor>(99 / (1 - v)) * 100\<rfloor> / 100" by simp
  moreover have "\<not> v < HOUSE_EDGE" using assms by simp
  ultimately show ?thesis by (simp add: crashPoint_def Let_def)
qed

text \<open>
  C5. On draws from the house edge up to 1 the crash point does not decrease as the
  draw grows; on draws below the house edge it is 1.
\<close>

theorem crashPoint_monotone:
  assumes "HOUSE_EDGE \<le> u1" "u1 \<le> u2" "u2 < 1" "0 \<le> v" "v < HOUSE_EDGE"
  shows "crashPoint u1 \<le> crashPoint u2 \<and> crashPoint v = 1"
proof -
  define p1 :: rat where "p1 = of_int \<lfloor>(99 / (1 - u1)) * 100\<rfloor> / 100"
  define p2 :: rat where "p2 = of_int \<lfloor>(99 / (1 - u2)) * 100\<rfloor> / 100"
  have le: "p1 \<le> p2"
    unfolding p1_def p2_def using assms(2,3) by (rule point_mono)
  have "\<not> u1 < HOUSE_EDGE" "\<not> u2 < HOUSE_EDGE" using assms by auto
  then have "crashPoint u1 = max 1 (min p1 1000)" "crashPoint u2 = max 1 (min p2 1000)"
    by (simp_all add: crashPoint_def Let_def p1_def p2_def)
  moreover have "max 1 (min p1 1000) \<le> max 1 (min p2 1000)"
    using le by (simp add: min_def max_def)
  ultimately have "crashPoint u1 \<le> crashPoint u2" by simp
  then show ?thesis using assms by (simp add: crashPoint_def)
qed

theorem crashPoint_monotone_witness:
  "crashPoint (1 / 100) \<le> crashPoint (1 / 2) \<and> crashPoint 0 = 1
   \<and> crashPoint (1 / 100) = 100 \<and> crashPoint (1 / 2) = 198"
proof -
  have h: "HOUSE_EDGE \<le> 1 / 100" "(1 / 100 :: rat) \<le> 1 / 2" "(1 / 2 :: rat) < 1"
    "(0::rat) \<le> 0" "0 < HOUSE_EDGE"
    by (simp_all add: HOUSE_EDGE_def)
  have "crashPoint (1 / 100) = 100" "crashPoint (1 / 2) = 198"
    by (simp_all add: crashPoint_def HOUSE_EDGE_def)
  with crashPoint_monotone [OF h] show ?thesis by simp
qed

section \<open>Properties of the roulette settlement\<close>

lemma winningNumber_range:
  assumes "0 \<le> rnd" "rnd < 1"
  shows "0 \<le> winningNumber_of rnd \<and> winningNumber_of rnd \<le> 36"
proof -
  have "0 \<le> rnd * 37" using assms by simp
  then have lo: "0 \<le> \<lfloor>rnd * 37\<rfloor>" by simp
  have "rnd * 37 < 37" using assms by simp
  then have "\<lfloor>rnd * 37\<rfloor> < 37" by (simp add: floor_less_iff)
  with lo show ?thesis by (simp add: winningNumber_of_def)
qed

lemma color_red: "getNumberColor n = red \<longleftrightarrow>
    n \<in> {1, 3, 5, 7, 9, 12, 14, 16, 18, 19, 21, 23, 25, 27, 30, 32, 34, 36}"
  by (simp add: getNumberColor_def RED_NUMBERS_def)

lemma color_black:
  assumes "0 \<le> n" "n \<le> 36"
  shows "getNumberColor n = black \<longleftrightarrow>
    n \<in> {2, 4, 6, 8, 10, 11, 13, 15, 17, 20, 22, 24, 26, 28, 29, 31, 33, 35}"
proof -
  have "getNumberColor n = black \<longleftrightarrow> n \<noteq> 0 \<and>
      n \<notin> {1, 3, 5, 7, 9, 12, 14, 16, 18, 19, 21, 23, 25, 27, 30, 32, 34, 36}"
    by (simp add: getNumberColor_def RED_NUMBERS_def)
  also have "\<dots> \<longleftrightarrow> n \<in> {2, 4, 6, 8, 10, 11, 13, 15, 17, 20, 22, 24, 26, 28, 29, 31, 33, 35}"
    using assms by simp presburger
  finally show ?thesis .
qed

lemma settle_bet_spec:
  assumes "0 \<le> n" "n \<le> 36"
  shows "settle_bet n b t = t + spec_return n b"
proof (cases "bet_type b")
  case Number
  then show ?thesis by (simp add: settle_bet_def spec_return_def spec_covers_def spec_table_def)
next
  case Red
  then show ?thesis
    by (simp add: settle_bet_def spec_return_def spec_covers_def spec_table_def color_red)
next
  case Black
  then show ?thesis
    using color_black [OF assms]
    by (simp add: settle_bet_def spec_return_def spec_covers_def spec_table_def)
next
  case Even
  have "(n \<noteq> 0 \<and> n mod 2 = 0) \<longleftrightarrow> (n \<in> {1..36} \<and> even n)"
    using assms by auto
  with Even show ?thesis
    by (simp add: settle_bet_def spec_return_def spec_covers_def spec_table_def)
next
  case Odd
  have "(n \<in> {1..36} \<and> odd n) \<longleftrightarrow> (1 \<le> n \<and> n \<le> 36 \<and> n mod 2 = 1)"
    by (simp add: odd_iff_mod_2_eq_one)
  also have "\<dots> \<longleftrightarrow> n mod 2 = 1"
    using assms by presburger
  finally have "(n mod 2 = 1) \<longleftrightarrow> (n \<in> {1..36} \<and> odd n)" by simp
  with Odd show ?thesis
    by (simp add: settle_bet_def spec_return_def spec_covers_def spec_table_def)
next
  case Low
  then show ?thesis
    by (simp add: settle_bet_def spec_return_def spec_covers_def spec_table_def)
next
  case High
  then show ?thesis
    by (simp add: settle_bet_def spec_return_def spec_covers_def spec_table_def)
qed

lemma fold_settle:
  assumes "0 \<le> n" "n \<le> 36"
  shows "fold (settle_bet n) bets t = t + sum_list (map (spec_return n) bets)"
  by (induction bets arbitrary: t) (simp_all add: settle_bet_spec [OF assms])

text \<open>
  C6. For a value of \<open>Math.random()\<close> in \<open>[0, 1)\<close> the spin selects one winning number
  between 0 and 36. The total win is the sum over the bets of what the fixed table
  gives: 36 times the stake of a straight-up bet on the winning number, 2 times the
  stake of a red, black, even, odd, 1-18 or 19-36 bet that covers it, and 0 for a bet
  that does not cover it. A straight-up bet of 1 on the winning number returns 36.
\<close>

theorem roulette_payout_table:
  assumes "0 \<le> rnd" "rnd < 1"
  shows "fst (roulette_spin rnd bets) \<in> {0..36}
       \<and> snd (roulette_spin rnd bets)
           = sum_list (map (spec_return (fst (roulette_spin rnd bets))) bets)
       \<and> roulette_totalWin (fst (roulette_spin rnd bets))
           [\<lparr>bet_type = Number, bet_value = Some (fst (roulette_spin rnd bets)),
             bet_amount = 1\<rparr>] = 36"
proof -
  note r = winningNumber_range [OF assms]
  have "roulette_totalWin (winningNumber_of rnd) bets
          = sum_list (map (spec_return (winningNumber_of rnd)) bets)"
    using fold_settle [of "winningNumber_of rnd" bets 0] r by (simp add: roulette_totalWin_def)
  moreover have "roulette_totalWin (winningNumber_of rnd)
           [\<lparr>bet_type = Number, bet_value = Some (winningNumber_of rnd), bet_amount = 1\<rparr>] = 36"
    by (simp add: roulette_totalWin_def settle_bet_def)
  ultimately show ?thesis using r by (simp add: roulette_spin_def Let_def)
qed

theorem roulette_payout_table_witness:
  "roulette_spin (1 / 2) ex_bets = (18, 37)
   \<and> sum_list (map (spec_return 18) ex_bets) = 37
   \<and> roulette_totalWin 18 [\<lparr>bet_type = Number, bet_value = Some 18, bet_amount = 1\<rparr>] = 36"
proof -
  have h: "(0::rat) \<le> 1 / 2" "(1 / 2 :: rat) < 1" by simp_all
  have w: "winningNumber_of (1 / 2) = 18"
    by (simp add: winningNumber_of_def floor_eq_iff)
  have run: "roulette_spin (1 / 2) ex_bets = (18, 37)"
    by (simp add: roulette_spin_def w roulette_totalWin_def ex_bets_def
        settle_bet_def getNumberColor_def RED_NUMBERS_def Let_def)
  from roulette_payout_table [OF h, of ex_bets] run
  show ?thesis by simp
qed

section \<open>Properties of the slots jackpot\<close>

text \<open>
  A spin that is played adds 2 percent of the stake to the jackpot state and carries
  the jackpot of the render it was started in, without that addition.
\<close>

lemma slots_contribution:
  assumes "slots_spin_start s betAmount b draws = (Played run, s')"
  shows "\<exists>amt. betAmount = Amount amt \<and> run_amount run = amt
           \<and> st_jackpot s' = st_jackpot s + amt * (2 / 100)
           \<and> run_jackpot run = st_jackpot s"
  using assms
  by (auto simp: slots_spin_start_def JACKPOT_CONTRIBUTION_def
      split: amountField.splits option.splits if_splits prod.splits)

lemma slots_jackpot_hit:
  assumes "run_finalReels run = (Seven, Seven, Seven)" "run_jackpot run > 0"
  shows "\<exists>req s'. slots_spin_finish s run now = (Some req, s')
           \<and> amount req = Some (run_jackpot run) \<and> st_jackpot s' = INITIAL_JACKPOT"
  using assms by (simp add: slots_spin_finish_def calculateWin_def Let_def)

text \<open>
  C7. The pool is 5000 and the stake is 1. Starting the spin raises the pool to
  5000.02. The three reels show the jackpot symbol. The payout requested is 5000, the
  pool of the render in which the spin was started, not the pool of 5000.02 that is
  then reset to 5000: the 2 percent of the winning stake are neither paid nor kept.
\<close>

theorem slots_jackpot_pays_stale_pool:
  "slots_spin_start ex_slots (Amount 1) (ex_bet ''SIG1'') (1 / 200, 1 / 200, 1 / 200)
     = (Played ex_running, ex_slots\<lparr>st_jackpot := 250001 / 50\<rparr>)
   \<and> slots_spin_finish (ex_slots\<lparr>st_jackpot := 250001 / 50\<rparr>) ex_running 3000
     = (Some \<lparr>playerWallet = Some ''PLAYER'', amount = Some 5000,
              gameId = Some ''slots_3000'', blockhash = Some [], slot = Some 0\<rparr>,
        ex_slots\<lparr>st_stats := \<lparr>wins = 1, losses = 0, totalWagered = 1, totalWon = 5000,
                                jackpotsWon = 1\<rparr>\<rparr>)"
proof -
  have n: "showNat 3000 = ''3000''" by code_simp
  have 1: "slots_spin_start ex_slots (Amount 1) (ex_bet ''SIG1'') (1 / 200, 1 / 200, 1 / 200)
     = (Played ex_running, ex_slots\<lparr>st_jackpot := 250001 / 50\<rparr>)"
    by (simp add: slots_spin_start_def ex_slots_def ex_bet_def ex_running_def bet_thrown_def
        SLOTS_MIN_BET_def SLOTS_MAX_BET_def JACKPOT_CONTRIBUTION_def getRandomSymbol_def
        WEIGHTS_def Let_def)
  have 2: "slots_spin_finish (ex_slots\<lparr>st_jackpot := 250001 / 50\<rparr>) ex_running 3000
     = (Some \<lparr>playerWallet = Some ''PLAYER'', amount = Some 5000,
              gameId = Some ''slots_3000'', blockhash = Some [], slot = Some 0\<rparr>,
        ex_slots\<lparr>st_stats := \<lparr>wins = 1, losses = 0, totalWagered = 1, totalWon = 5000,
                                jackpotsWon = 1\<rparr>\<rparr>)"
    by (simp add: slots_spin_finish_def ex_slots_def ex_running_def calculateWin_def
        INITIAL_JACKPOT_def Let_def n)
  from 1 2 show ?thesis by simp
qed

end
